theory Spec2Isabelle
  imports Main
begin

section \<open>Team service: data model\<close>

text \<open>
  The service (\<^verbatim>\<open>TeamService\<close>) is a thin layer over three collaborators: the relational
  store (two TypeORM repositories), the key/value cache (\<^verbatim>\<open>cacheManager\<close>) and the CSV
  parser. Each call to a collaborator is a function on an explicit \<open>world\<close> state that
  also appends an event to a call log, so that "the store is not queried" is a statement
  about the log.
\<close>

subsection \<open>JavaScript values read from a parsed CSV row\<close>

datatype jsval = JUndefined | JNull | JString string

text \<open>\<^verbatim>\<open>_.isNil(v)\<close>: \<^verbatim>\<open>v\<close> is \<^verbatim>\<open>null\<close> or \<^verbatim>\<open>undefined\<close>.\<close>

fun isNil :: "jsval \<Rightarrow> bool" where
  "isNil JUndefined = True"
| "isNil JNull = True"
| "isNil (JString s) = False"

text \<open>A parsed row maps column names to values; reading an absent property gives
  \<^verbatim>\<open>undefined\<close>.\<close>

type_synonym row = "string \<rightharpoonup> jsval"

definition getProp :: "row \<Rightarrow> string \<Rightarrow> jsval" where
  "getProp r k = (case r k of None \<Rightarrow> JUndefined | Some v \<Rightarrow> v)"

subsection \<open>JavaScript numbers\<close>

text \<open>
  \<^verbatim>\<open>page\<close> and \<^verbatim>\<open>page_size\<close> are integer-valued JavaScript numbers, that is IEEE
  doubles, and \<^verbatim>\<open>(page - 1) * page_size\<close> is computed on doubles: each operation gives
  the exact result rounded to the nearest double, ties to the even mantissa, and infinity
  beyond the largest double. Below \<open>2 ^ 53 = 9007199254740992\<close> every integer is a double.
\<close>

datatype jsnum = Num int | PosInfinity | NegInfinity | NaN






text \<open>Truthiness of a number: zero and \<^verbatim>\<open>NaN\<close> are falsy.\<close>

fun truthyNum :: "jsnum \<Rightarrow> bool" where
  "truthyNum (Num n) = (n \<noteq> 0)"
| "truthyNum PosInfinity = True"
| "truthyNum NegInfinity = True"
| "truthyNum NaN = False"

subsection \<open>Entities and request objects\<close>

text \<open>Modelled from the spec: the \<^verbatim>\<open>Team\<close> entity (its declaration is not among the
  sources): a numeric id, a name and a description. The two text columns hold whatever
  value the service passes to the store.\<close>

record Team =
  t_id :: int
  t_name :: jsval
  t_description :: jsval

text \<open>Modelled from the spec: the \<^verbatim>\<open>Player\<close> entity (its declaration is not among the
  sources): id, name, nickname, and the team it belongs to (column \<^verbatim>\<open>team_id\<close>).\<close>

record Player =
  p_id :: int
  p_name :: string
  p_nickname :: string
  p_team_id :: int

text \<open>Modelled from the spec: a support message (its declaration is not among the
  sources), of which only the id and the owning team matter here.\<close>

record SupportMessage =
  m_id :: int
  m_team_id :: int

text \<open>The objects built at line 68 of the service: \<^verbatim>\<open>{name, description}\<close>.\<close>

record CreateTeamDto =
  c_name :: jsval
  c_description :: jsval

text \<open>Modelled from the spec: \<^verbatim>\<open>UpdateTeamDto\<close> (its declaration is not among the
  sources). A patch carries the optional fields \<^verbatim>\<open>name\<close> and \<^verbatim>\<open>description\<close>; a field
  that was not provided reads as \<^verbatim>\<open>undefined\<close>.\<close>

record UpdateTeamDto =
  u_name :: jsval
  u_description :: jsval

text \<open>Modelled from the spec: \<^verbatim>\<open>PaginationQueryDto\<close> (its declaration is not among the
  sources): page, page\_size, and the optional name and nickname filters.\<close>

record PaginationQueryDto =
  q_page :: "int option"
  q_page_size :: "int option"
  q_name :: "string option"
  q_nickname :: "string option"

record MulterFile =
  originalname :: string
  buffer :: string

record TeamStat =
  s_id :: int
  s_name :: jsval
  playerCount :: nat
  supportMessageCount :: nat

subsection \<open>Errors\<close>

datatype bad_request = NotCsvFile | CsvParseFailed | MissingColumns

datatype error =
    BadRequestException bad_request
  | NotFoundException
  | QueryFailedError
  | UpdateValuesMissingError
  | OffsetWithoutLimitNotSupportedError
  | TypeORMError

subsection \<open>Query builder, cache values, call log\<close>

datatype cond = TeamIdEq int | NameLike string | NicknameLike string

record queryBuilder =
  qb_where :: "cond list"
  qb_skip :: "jsnum option"
  qb_take :: "jsnum option"

datatype cval = CPlayers "Player list" | CStats "TeamStat list"

record cacheEntry =
  ce_value :: cval
  ce_expires :: "nat option"

datatype event =
    BufferToString
  | CsvParse string
  | TeamFindOneBy int
  | TeamSave "CreateTeamDto list"
  | TeamUpdate int UpdateTeamDto
  | TeamDelete int
  | TeamStatsQuery
  | PlayerGetMany queryBuilder
  | CacheGet string
  | CacheSet string cval "nat option"
  | ConsoleLog string

record world =
  teams :: "Team list"
  players :: "Player list"
  supportMessages :: "SupportMessage list"
  next_id :: int
  cache :: "string \<rightharpoonup> cacheEntry"
  now :: nat
  log :: "event list"

definition emit :: "event \<Rightarrow> world \<Rightarrow> world" where
  "emit e w = w\<lparr>log := log w @ [e]\<rparr>"

section \<open>The relational store\<close>

text \<open>\<^verbatim>\<open>teamRepository.findOneBy({ id })\<close>: the first row with that id, or null.\<close>

definition teamRepository_findOneBy :: "int \<Rightarrow> world \<Rightarrow> Team option \<times> world" where
  "teamRepository_findOneBy i w =
     (find (\<lambda>t. t_id t = i) (teams w), emit (TeamFindOneBy i) w)"

text \<open>\<^verbatim>\<open>teamRepository.save(dtos)\<close>: the objects carry no id, so each one is inserted
  as a new row, with ids generated in sequence.\<close>

primrec save_rows :: "CreateTeamDto list \<Rightarrow> int \<Rightarrow> Team list" where
  "save_rows [] n = []"
| "save_rows (d # ds) n =
     \<lparr>t_id = n, t_name = c_name d, t_description = c_description d\<rparr> # save_rows ds (n + 1)"

definition teamRepository_save :: "CreateTeamDto list \<Rightarrow> world \<Rightarrow> world" where
  "teamRepository_save dtos w =
     emit (TeamSave dtos)
       (w\<lparr>teams := teams w @ save_rows dtos (next_id w),
          next_id := next_id w + int (length dtos)\<rparr>)"

section \<open>CSV import\<close>

text \<open>\<^verbatim>\<open>String.prototype.endsWith\<close>.\<close>

definition endsWith :: "string \<Rightarrow> string \<Rightarrow> bool" where
  "endsWith s suf = (length suf \<le> length s \<and> drop (length s - length suf) s = suf)"

text \<open>The loop of lines 60 to 66: the first row with a nil \<^verbatim>\<open>name\<close> or
  \<^verbatim>\<open>description\<close> throws.\<close>

fun checkRows :: "row list \<Rightarrow> error + unit" where
  "checkRows [] = Inr ()"
| "checkRows (teamData # rest) =
     (if isNil (getProp teamData ''name'') \<or> isNil (getProp teamData ''description'')
      then Inl (BadRequestException MissingColumns)
      else checkRows rest)"

definition createTeamDtos :: "row list \<Rightarrow> CreateTeamDto list" where
  "createTeamDtos teamsData =
     map (\<lambda>teamData. \<lparr>c_name = getProp teamData ''name'',
                       c_description = getProp teamData ''description''\<rparr>) teamsData"

text \<open>
  \<^verbatim>\<open>create(file)\<close>. The two library calls are parameters: \<open>toString\<close> is
  \<^verbatim>\<open>Buffer.toString\<close>, and \<open>parse\<close> is the CSV parser called with a header row and
  empty lines skipped, giving \<open>None\<close> when it throws.
\<close>

definition create ::
  "(string \<Rightarrow> string) \<Rightarrow> (string \<Rightarrow> row list option) \<Rightarrow> MulterFile \<Rightarrow> world
     \<Rightarrow> (error + unit) \<times> world" where
  "create toString parse file w =
     (if \<not> endsWith (originalname file) ''.csv''
      then (Inl (BadRequestException NotCsvFile), w)
      else
        let csvContent = toString (buffer file);
            w1 = emit BufferToString w;
            w2 = emit (CsvParse csvContent) w1
        in case parse csvContent of
             None \<Rightarrow> (Inl (BadRequestException CsvParseFailed), w2)
           | Some teamsData \<Rightarrow>
               (case checkRows teamsData of
                  Inl e \<Rightarrow> (Inl e, w2)
                | Inr _ \<Rightarrow> (Inr (), teamRepository_save (createTeamDtos teamsData) w2)))"

section \<open>Team lookup, update and delete\<close>

text \<open>\<^verbatim>\<open>teamRepository.update({ id }, dto)\<close>: every row with that id gets the columns the
  object defines; a property that is \<^verbatim>\<open>undefined\<close> is not part of the update. An object
  that defines no column at all is refused before any statement reaches the store.\<close>

definition applyPatch :: "UpdateTeamDto \<Rightarrow> Team \<Rightarrow> Team" where
  "applyPatch dto t =
     t\<lparr>t_name := (if u_name dto = JUndefined then t_name t else u_name dto),
       t_description :=
         (if u_description dto = JUndefined then t_description t else u_description dto)\<rparr>"

definition teamRepository_update ::
  "int \<Rightarrow> UpdateTeamDto \<Rightarrow> world \<Rightarrow> (error + unit) \<times> world" where
  "teamRepository_update i dto w =
     (if u_name dto = JUndefined \<and> u_description dto = JUndefined
      then (Inl UpdateValuesMissingError, w)
      else
        (Inr (),
         emit (TeamUpdate i dto)
           (w\<lparr>teams := map (\<lambda>t. if t_id t = i then applyPatch dto t else t) (teams w)\<rparr>)))"

text \<open>\<^verbatim>\<open>teamRepository.delete({ id })\<close>.\<close>

definition teamRepository_delete :: "int \<Rightarrow> world \<Rightarrow> world" where
  "teamRepository_delete i w =
     emit (TeamDelete i) (w\<lparr>teams := filter (\<lambda>t. t_id t \<noteq> i) (teams w)\<rparr>)"

definition verifyTeamById :: "int \<Rightarrow> world \<Rightarrow> (error + Team) \<times> world" where
  "verifyTeamById i w =
     (case teamRepository_findOneBy i w of
        (None, w1) \<Rightarrow> (Inl NotFoundException, w1)
      | (Some team, w1) \<Rightarrow> (Inr team, w1))"

definition findOne :: "int \<Rightarrow> world \<Rightarrow> (error + Team) \<times> world" where
  "findOne i w = verifyTeamById i w"

definition update :: "int \<Rightarrow> UpdateTeamDto \<Rightarrow> world \<Rightarrow> (error + unit) \<times> world" where
  "update i updateTeamDto w =
     (case verifyTeamById i w of
        (Inl e, w1) \<Rightarrow> (Inl e, w1)
      | (Inr _, w1) \<Rightarrow> teamRepository_update i updateTeamDto w1)"

definition delete :: "int \<Rightarrow> world \<Rightarrow> (error + unit) \<times> world" where
  "delete i w =
     (case verifyTeamById i w of
        (Inl e, w1) \<Rightarrow> (Inl e, w1)
      | (Inr _, w1) \<Rightarrow> (Inr (), teamRepository_delete i w1))"

section \<open>The cache\<close>

text \<open>Modelled from the spec: the key/value cache. An entry holds a value and an optional
  time to live in milliseconds; an entry set without one stays until it is evicted from
  outside. \<^verbatim>\<open>get\<close> gives nothing for an absent or an expired key.\<close>

definition cacheManager_get :: "string \<Rightarrow> world \<Rightarrow> cval option \<times> world" where
  "cacheManager_get key w =
     ((case cache w key of
         None \<Rightarrow> None
       | Some e \<Rightarrow>
           (case ce_expires e of
              None \<Rightarrow> Some (ce_value e)
            | Some t \<Rightarrow> if now w < t then Some (ce_value e) else None)),
      emit (CacheGet key) w)"

definition cacheManager_set :: "string \<Rightarrow> cval \<Rightarrow> nat option \<Rightarrow> world \<Rightarrow> world" where
  "cacheManager_set key v ttl w =
     emit (CacheSet key v ttl)
       (w\<lparr>cache := (cache w)(key \<mapsto>
            \<lparr>ce_value = v, ce_expires = map_option (\<lambda>t. now w + t) ttl\<rparr>)\<rparr>)"

section \<open>Player queries\<close>

definition createQueryBuilder :: queryBuilder where
  "createQueryBuilder = \<lparr>qb_where = [], qb_skip = None, qb_take = None\<rparr>"


definition andWhere :: "cond \<Rightarrow> queryBuilder \<Rightarrow> queryBuilder" where
  "andWhere c qb = qb\<lparr>qb_where := qb_where qb @ [c]\<rparr>"



text \<open>The SQL \<^verbatim>\<open>LIKE\<close> operator belongs to the store and its collation; it is the
  parameter \<open>like\<close>, taking the pattern and the column value.\<close>

fun holds :: "(string \<Rightarrow> string \<Rightarrow> bool) \<Rightarrow> cond \<Rightarrow> Player \<Rightarrow> bool" where
  "holds like (TeamIdEq i) p = (p_team_id p = i)"
| "holds like (NameLike pat) p = like pat (p_name p)"
| "holds like (NicknameLike pat) p = like pat (p_nickname p)"

text \<open>
  How the query builder turns skip and take into the statement's limit clause, for MySQL
  (the store of the repository's compose file): a value that is absent or falsy is left
  out, so a take of 0 puts no limit on the rows, and an offset without a limit is refused
  before any statement is sent.
\<close>

datatype limitClause = NoLimit | Limit jsnum | LimitOffset jsnum jsnum

definition setNum :: "jsnum option \<Rightarrow> jsnum option" where
  "setNum v = (case v of None \<Rightarrow> None | Some n \<Rightarrow> if truthyNum n then Some n else None)"

definition createLimitOffsetExpression :: "queryBuilder \<Rightarrow> error + limitClause" where
  "createLimitOffsetExpression qb =
     (case (setNum (qb_take qb), setNum (qb_skip qb)) of
        (Some limit, Some offset) \<Rightarrow> Inr (LimitOffset limit offset)
      | (Some limit, None) \<Rightarrow> Inr (Limit limit)
      | (None, Some offset) \<Rightarrow> Inl OffsetWithoutLimitNotSupportedError
      | (None, None) \<Rightarrow> Inr NoLimit)"

text \<open>
  What the store does with the clause. \<^verbatim>\<open>LIMIT\<close> and \<^verbatim>\<open>OFFSET\<close> take a literal that is
  a non-negative integer of at most \<open>2 ^ 64 - 1\<close>; with anything else (a negative number,
  a larger one, which from \<open>10 ^ 21\<close> on is written with an exponent, an infinity) the
  statement is rejected.
\<close>

fun rowCount :: "jsnum \<Rightarrow> nat option" where
  "rowCount (Num n) = (if 0 \<le> n \<and> n \<le> 18446744073709551615 then Some (nat n) else None)"
| "rowCount PosInfinity = None"
| "rowCount NegInfinity = None"
| "rowCount NaN = None"

fun limitOffset :: "limitClause \<Rightarrow> 'a list \<Rightarrow> error + 'a list" where
  "limitOffset NoLimit rows = Inr rows"
| "limitOffset (Limit limit) rows =
     (case rowCount limit of
        None \<Rightarrow> Inl QueryFailedError
      | Some t \<Rightarrow> Inr (take t rows))"
| "limitOffset (LimitOffset limit offset) rows =
     (case (rowCount limit, rowCount offset) of
        (Some t, Some k) \<Rightarrow> Inr (take t (drop k rows))
      | _ \<Rightarrow> Inl QueryFailedError)"

text \<open>\<^verbatim>\<open>getMany()\<close>: the statement is built, and then sent to the store, which is the logged
  event.\<close>

definition getMany ::
  "(string \<Rightarrow> string \<Rightarrow> bool) \<Rightarrow> queryBuilder \<Rightarrow> world \<Rightarrow> (error + Player list) \<times> world" where
  "getMany like qb w =
     (case createLimitOffsetExpression qb of
        Inl e \<Rightarrow> (Inl e, w)
      | Inr clause \<Rightarrow>
          (limitOffset clause
             (filter (\<lambda>p. list_all (\<lambda>c. holds like c p) (qb_where qb)) (players w)),
           emit (PlayerGetMany qb) w))"

text \<open>\<^verbatim>\<open>if (name) queryBuilder.andWhere(...)\<close>: an absent and an empty string are both
  falsy. The pattern is the template \<^verbatim>\<open>%${name}%\<close>.\<close>

definition truthy :: "string option \<Rightarrow> bool" where
  "truthy s = (case s of None \<Rightarrow> False | Some v \<Rightarrow> v \<noteq> [])"

definition nameFilter :: "string option \<Rightarrow> queryBuilder \<Rightarrow> queryBuilder" where
  "nameFilter name qb =
     (case name of
        None \<Rightarrow> qb
      | Some v \<Rightarrow> if v \<noteq> [] then andWhere (NameLike (''%'' @ v @ ''%'')) qb else qb)"

definition nicknameFilter :: "string option \<Rightarrow> queryBuilder \<Rightarrow> queryBuilder" where
  "nicknameFilter nickname qb =
     (case nickname of
        None \<Rightarrow> qb
      | Some v \<Rightarrow> if v \<noteq> [] then andWhere (NicknameLike (''%'' @ v @ ''%'')) qb else qb)"

text \<open>\<^verbatim>\<open>findAllPlayers(query)\<close>. What the cache gives back is an array, which is truthy
  even when empty, so \<^verbatim>\<open>!searchAllPlayers\<close> holds exactly when the cache gave nothing.\<close>

definition findAllPlayers ::
  "(string \<Rightarrow> string \<Rightarrow> bool) \<Rightarrow> PaginationQueryDto \<Rightarrow> world \<Rightarrow> (error + cval) \<times> world" where
  "findAllPlayers like query w =
     (let page = (case q_page query of None \<Rightarrow> 1 | Some v \<Rightarrow> v);
          page_size = (case q_page_size query of None \<Rightarrow> 10 | Some v \<Rightarrow> v);
          name = q_name query;
          nickname = q_nickname query;
          queryBuilder = nicknameFilter nickname (nameFilter name createQueryBuilder)
      in if truthy name \<and> truthy nickname
         then
           (case cacheManager_get ''searchAllPlayers'' w of
              (None, w1) \<Rightarrow>
                (case getMany like queryBuilder w1 of
                   (Inl e, w2) \<Rightarrow> (Inl e, w2)
                 | (Inr searchAllPlayers, w2) \<Rightarrow>
                     (Inr (CPlayers searchAllPlayers),
                      cacheManager_set ''searchAllPlayers'' (CPlayers searchAllPlayers)
                        (Some (1000 * 60 * 5)) w2))
            | (Some searchAllPlayers, w1) \<Rightarrow>
                (Inr searchAllPlayers,
                 emit (ConsoleLog ''=========== cache hit! ==========='') w1))
         else
           (case getMany like queryBuilder w of
              (Inl e, w1) \<Rightarrow> (Inl e, w1)
            | (Inr players', w1) \<Rightarrow> (Inr (CPlayers players'), w1)))"


section \<open>Team statistics\<close>

text \<open>A left join keeps a row without a match, paired with null.\<close>

definition leftJoin :: "'a list \<Rightarrow> ('a \<Rightarrow> 'b list) \<Rightarrow> ('a \<times> 'b option) list" where
  "leftJoin rows matches =
     concat (map (\<lambda>r. case matches r of
                         [] \<Rightarrow> [(r, None)]
                       | m # ms \<Rightarrow> map (\<lambda>x. (r, Some x)) (m # ms)) rows)"

text \<open>\<^verbatim>\<open>GROUP BY\<close>: the groups in the order their keys first appear, each with its
  first row apart.\<close>

fun groupBy :: "('a \<Rightarrow> 'k) \<Rightarrow> 'a list \<Rightarrow> ('a \<times> 'a list) list" where
  "groupBy f [] = []"
| "groupBy f (x # xs) =
     (x, filter (\<lambda>y. f y = f x) xs) # groupBy f (filter (\<lambda>y. f y \<noteq> f x) xs)"

text \<open>\<^verbatim>\<open>COUNT(DISTINCT col)\<close>: the number of distinct non-null values of the column.\<close>

definition countDistinct :: "('a \<Rightarrow> int option) \<Rightarrow> 'a list \<Rightarrow> nat" where
  "countDistinct col rows = length (remdups (List.map_filter col rows))"

type_synonym joined = "(Team \<times> Player option) \<times> SupportMessage option"

definition teamStat :: "joined \<times> joined list \<Rightarrow> TeamStat" where
  "teamStat g =
     (case g of (first, rest) \<Rightarrow>
        \<lparr>s_id = t_id (fst (fst first)),
         s_name = t_name (fst (fst first)),
         playerCount = countDistinct (\<lambda>r. map_option p_id (snd (fst r))) (first # rest),
         supportMessageCount = countDistinct (\<lambda>r. map_option m_id (snd r)) (first # rest)\<rparr>)"

definition teamStatsQuery :: "world \<Rightarrow> TeamStat list \<times> world" where
  "teamStatsQuery w =
     (let withPlayers =
            leftJoin (teams w) (\<lambda>t. filter (\<lambda>p. p_team_id p = t_id t) (players w));
          withMessages =
            leftJoin withPlayers
              (\<lambda>r. filter (\<lambda>m. m_team_id m = t_id (fst r)) (supportMessages w))
      in (map teamStat (groupBy (\<lambda>r. t_id (fst (fst r))) withMessages),
          emit TeamStatsQuery w))"

text \<open>\<^verbatim>\<open>getTeamStats()\<close>.\<close>

definition getTeamStats :: "world \<Rightarrow> cval \<times> world" where
  "getTeamStats w =
     (case cacheManager_get ''teamStats'' w of
        (None, w1) \<Rightarrow>
          (case teamStatsQuery w1 of
             (stats, w2) \<Rightarrow> (CStats stats, cacheManager_set ''teamStats'' (CStats stats) None w2))
      | (Some stats, w1) \<Rightarrow> (stats, w1))"

section \<open>Sample data\<close>

text \<open>ASCII case folding of one character, to speak of the casings of a file extension.\<close>

definition toLowerCase :: "char \<Rightarrow> char" where
  "toLowerCase c =
     (let n = of_char c :: nat in if 65 \<le> n \<and> n \<le> 90 then char_of (n + 32) else c)"

text \<open>One instance of the store's \<^verbatim>\<open>LIKE\<close>: the wildcards \<^verbatim>\<open>%\<close> and \<^verbatim>\<open>_\<close> under a binary
  collation.\<close>

fun sqlLike :: "string \<Rightarrow> string \<Rightarrow> bool" where
  "sqlLike [] s = (s = [])"
| "sqlLike (c # pat) [] = (c = CHR ''%'' \<and> sqlLike pat [])"
| "sqlLike (c # pat) (x # xs) =
     (if c = CHR ''%'' then sqlLike pat (x # xs) \<or> sqlLike (c # pat) xs
      else (c = CHR ''_'' \<or> c = x) \<and> sqlLike pat xs)"

definition emptyWorld :: world where
  "emptyWorld = \<lparr>teams = [], players = [], supportMessages = [], next_id = 1,
                  cache = Map.empty, now = 0, log = []\<rparr>"

definition teamsFile :: MulterFile where
  "teamsFile = \<lparr>originalname = ''teams.csv'', buffer = ''name,description''\<rparr>"

definition rowsAB :: "row list" where
  "rowsAB = [[''name'' \<mapsto> JString ''A'', ''description'' \<mapsto> JString ''d1'',
              ''city'' \<mapsto> JString ''x''],
             [''name'' \<mapsto> JString ''B'', ''description'' \<mapsto> JString ''d2'']]"

definition rowsMissing :: "row list" where
  "rowsMissing = [[''name'' \<mapsto> JString ''A'', ''description'' \<mapsto> JString ''d1''],
                  [''name'' \<mapsto> JString ''B'']]"

definition rowsEmpty :: "row list" where
  "rowsEmpty = [[''name'' \<mapsto> JString [], ''description'' \<mapsto> JString []]]"

definition teamA :: Team where
  "teamA = \<lparr>t_id = 1, t_name = JString ''A'', t_description = JString ''d1''\<rparr>"

definition teamB :: Team where
  "teamB = \<lparr>t_id = 2, t_name = JString ''B'', t_description = JString ''d2''\<rparr>"

definition mkPlayer :: "int \<Rightarrow> string \<Rightarrow> string \<Rightarrow> int \<Rightarrow> Player" where
  "mkPlayer i n k t = \<lparr>p_id = i, p_name = n, p_nickname = k, p_team_id = t\<rparr>"

text \<open>Team 1 has three players and two support messages, team 2 has one player.\<close>

definition leagueWorld :: world where
  "leagueWorld =
     \<lparr>teams = [teamA, teamB],
      players = [mkPlayer 1 ''kim'' ''ace'' 1, mkPlayer 2 ''lee'' ''bolt'' 1,
                 mkPlayer 3 ''park'' ''cat'' 2, mkPlayer 4 ''kang'' ''dart'' 1],
      supportMessages = [\<lparr>m_id = 1, m_team_id = 1\<rparr>, \<lparr>m_id = 2, m_team_id = 1\<rparr>],
      next_id = 3, cache = Map.empty, now = 1000, log = []\<rparr>"

text \<open>The same store after something was cached under both keys.\<close>

definition cachedWorld :: world where
  "cachedWorld =
     leagueWorld\<lparr>cache :=
       [''searchAllPlayers'' \<mapsto>
          \<lparr>ce_value = CPlayers [mkPlayer 3 ''park'' ''cat'' 2], ce_expires = Some 2000\<rparr>,
        ''teamStats'' \<mapsto> \<lparr>ce_value = CStats [], ce_expires = None\<rparr>]\<rparr>"

definition searchQuery :: PaginationQueryDto where
  "searchQuery = \<lparr>q_page = Some 2, q_page_size = Some 2, q_name = Some ''k'',
                   q_nickname = Some ''a''\<rparr>"



definition pageQuery :: PaginationQueryDto where
  "pageQuery = \<lparr>q_page = Some 2, q_page_size = Some 2, q_name = None, q_nickname = None\<rparr>"

section \<open>CSV import: extension check\<close>

lemma endsWith_append: "length ext = length suf \<Longrightarrow> endsWith (base @ ext) suf = (ext = suf)"
  by (auto simp: endsWith_def)

text \<open>
  C8. An upload whose file name does not end in \<^verbatim>\<open>.csv\<close> fails with the bad-request error
  of the extension check, whatever the decoder and the parser are, and the world is left as
  it was: nothing was decoded or parsed (the log has no new event) and no team was created.
\<close>

theorem create_rejects_non_csv:
  "\<not> endsWith (originalname file) ''.csv'' \<Longrightarrow>
     create toString parse file w = (Inl (BadRequestException NotCsvFile), w)"
  by (simp add: create_def)

theorem create_rejects_non_csv_witness:
  "\<not> endsWith (originalname (teamsFile\<lparr>originalname := ''teams.txt''\<rparr>)) ''.csv'' \<and>
   create (\<lambda>s. s) (\<lambda>s. Some rowsAB) (teamsFile\<lparr>originalname := ''teams.txt''\<rparr>) leagueWorld
     = (Inl (BadRequestException NotCsvFile), leagueWorld)"
proof -
  have h: "\<not> endsWith (originalname (teamsFile\<lparr>originalname := ''teams.txt''\<rparr>)) ''.csv''"
    by (simp add: endsWith_def)
  from h create_rejects_non_csv [OF h] show ?thesis by simp
qed

text \<open>
  C9. The extension check is case-sensitive: a file name whose last four characters are
  \<^verbatim>\<open>.csv\<close> in any casing other than all lower case (\<^verbatim>\<open>.CSV\<close>, \<^verbatim>\<open>.Csv\<close>, ...) is rejected
  with the bad-request error of the extension check.
\<close>

theorem create_extension_case_sensitive:
  assumes "map toLowerCase ext = ''.csv''" and "ext \<noteq> ''.csv''"
  shows "create toString parse \<lparr>originalname = base @ ext, buffer = b\<rparr> w
           = (Inl (BadRequestException NotCsvFile), w)"
proof -
  from assms(1) have "length (map toLowerCase ext) = 4" by simp
  then have "length ext = length ''.csv''" by simp
  then have "endsWith (base @ ext) ''.csv'' = (ext = ''.csv'')" by (rule endsWith_append)
  with assms(2) show ?thesis by (simp add: create_def)
qed

theorem create_extension_case_sensitive_witness:
  "map toLowerCase ''.CSV'' = ''.csv'' \<and> ''.CSV'' \<noteq> ''.csv'' \<and>
   create (\<lambda>s. s) (\<lambda>s. Some rowsAB) \<lparr>originalname = ''teams.CSV'', buffer = ''name''\<rparr>
       leagueWorld
     = (Inl (BadRequestException NotCsvFile), leagueWorld)"
proof -
  have h: "map toLowerCase ''.CSV'' = ''.csv''" by code_simp
  have n: "''.CSV'' \<noteq> ''.csv''" by simp
  from create_extension_case_sensitive
         [OF h n, of "\<lambda>s. s" "\<lambda>s. Some rowsAB" "''teams''" "''name''" leagueWorld] h n
  show ?thesis by simp
qed

section \<open>CSV import: row validation and insert\<close>

lemma checkRows_Inr:
  "checkRows rows = Inr () \<longleftrightarrow>
     (\<forall>r\<in>set rows. \<not> isNil (getProp r ''name'') \<and> \<not> isNil (getProp r ''description''))"
  by (induction rows) auto

lemma checkRows_Inl:
  "(\<exists>r\<in>set rows. isNil (getProp r ''name'') \<or> isNil (getProp r ''description''))
     \<Longrightarrow> checkRows rows = Inl (BadRequestException MissingColumns)"
  by (induction rows) auto

lemma length_createTeamDtos: "length (createTeamDtos rows) = length rows"
  by (simp add: createTeamDtos_def)

lemma save_rows_createTeamDtos:
  "save_rows (createTeamDtos rows) n =
     map (\<lambda>(k, r). \<lparr>t_id = n + int k, t_name = getProp r ''name'',
                     t_description = getProp r ''description''\<rparr>) (enumerate 0 rows)"
proof (induction rows arbitrary: n)
  case Nil
  show ?case by (simp add: createTeamDtos_def)
next
  case (Cons r rows)
  from Cons [of "n + 1"] show ?case
    by (simp add: createTeamDtos_def enumerate_Suc_eq case_prod_unfold o_def add.assoc)
qed

lemma create_rows_rejected:
  assumes "endsWith (originalname file) ''.csv''"
    and "parse (toString (buffer file)) = Some rows"
    and "checkRows rows = Inl e"
  shows "create toString parse file w =
           (Inl e, w\<lparr>log := log w @ [BufferToString, CsvParse (toString (buffer file))]\<rparr>)"
  using assms by (simp add: create_def emit_def Let_def)

lemma create_rows_accepted:
  assumes "endsWith (originalname file) ''.csv''"
    and "parse (toString (buffer file)) = Some rows"
    and "checkRows rows = Inr ()"
  shows "create toString parse file w =
           (Inr (),
            w\<lparr>teams := teams w @
                 map (\<lambda>(k, r). \<lparr>t_id = next_id w + int k, t_name = getProp r ''name'',
                                 t_description = getProp r ''description''\<rparr>)
                   (enumerate 0 rows),
              next_id := next_id w + int (length rows),
              log := log w @ [BufferToString, CsvParse (toString (buffer file)),
                              TeamSave (createTeamDtos rows)]\<rparr>)"
  using assms
  by (simp add: create_def emit_def Let_def teamRepository_save_def
      save_rows_createTeamDtos length_createTeamDtos)

text \<open>
  C1. Validation is all-or-nothing. For a \<^verbatim>\<open>.csv\<close> upload that parses to the rows \<open>rows\<close>:
  if some row has a nil (missing or null) \<^verbatim>\<open>name\<close> or \<^verbatim>\<open>description\<close>, the call fails
  with the bad-request error of the column check and the world differs from the one before
  only by the two log entries of decoding and parsing, so the insert was not reached and no
  team was created; otherwise the call succeeds and the store holds, after the teams it
  had, one new team per row, in order, whose name and description are the row's values of
  these two columns and nothing else of the row.
\<close>

theorem create_all_or_nothing:
  assumes "endsWith (originalname file) ''.csv''"
    and "parse (toString (buffer file)) = Some rows"
  shows "if \<exists>r\<in>set rows. isNil (getProp r ''name'') \<or> isNil (getProp r ''description'')
         then create toString parse file w =
                (Inl (BadRequestException MissingColumns),
                 w\<lparr>log := log w @ [BufferToString, CsvParse (toString (buffer file))]\<rparr>)
         else create toString parse file w =
                (Inr (),
                 w\<lparr>teams := teams w @
                      map (\<lambda>(k, r). \<lparr>t_id = next_id w + int k, t_name = getProp r ''name'',
                                      t_description = getProp r ''description''\<rparr>)
                        (enumerate 0 rows),
                   next_id := next_id w + int (length rows),
                   log := log w @ [BufferToString, CsvParse (toString (buffer file)),
                                   TeamSave (createTeamDtos rows)]\<rparr>)"
proof (cases "\<exists>r\<in>set rows. isNil (getProp r ''name'') \<or> isNil (getProp r ''description'')")
  case True
  then have "checkRows rows = Inl (BadRequestException MissingColumns)"
    by (rule checkRows_Inl)
  with assms have "create toString parse file w =
      (Inl (BadRequestException MissingColumns),
       w\<lparr>log := log w @ [BufferToString, CsvParse (toString (buffer file))]\<rparr>)"
    by (rule create_rows_rejected)
  with True show ?thesis by simp
next
  case False
  then have "checkRows rows = Inr ()"
    by (simp add: checkRows_Inr)
  with assms have "create toString parse file w =
           (Inr (),
            w\<lparr>teams := teams w @
                 map (\<lambda>(k, r). \<lparr>t_id = next_id w + int k, t_name = getProp r ''name'',
                                 t_description = getProp r ''description''\<rparr>)
                   (enumerate 0 rows),
              next_id := next_id w + int (length rows),
              log := log w @ [BufferToString, CsvParse (toString (buffer file)),
                              TeamSave (createTeamDtos rows)]\<rparr>)"
    by (rule create_rows_accepted)
  with False show ?thesis by simp
qed

theorem create_all_or_nothing_witness:
  "endsWith (originalname teamsFile) ''.csv''
   \<and> create (\<lambda>s. s) (\<lambda>s. Some rowsAB) teamsFile emptyWorld =
       (Inr (),
        emptyWorld\<lparr>teams := [teamA, teamB], next_id := 3,
          log := [BufferToString, CsvParse ''name,description'',
                  TeamSave [\<lparr>c_name = JString ''A'', c_description = JString ''d1''\<rparr>,
                            \<lparr>c_name = JString ''B'', c_description = JString ''d2''\<rparr>]]\<rparr>)
   \<and> create (\<lambda>s. s) (\<lambda>s. Some rowsMissing) teamsFile emptyWorld =
       (Inl (BadRequestException MissingColumns),
        emptyWorld\<lparr>log := [BufferToString, CsvParse ''name,description'']\<rparr>)"
proof -
  have e: "endsWith (originalname teamsFile) ''.csv''"
    by (simp add: teamsFile_def endsWith_def)
  from e create_all_or_nothing
         [of teamsFile "\<lambda>s. Some rowsAB" "\<lambda>s. s" rowsAB emptyWorld]
  have ok: "create (\<lambda>s. s) (\<lambda>s. Some rowsAB) teamsFile emptyWorld =
       (Inr (),
        emptyWorld\<lparr>teams := [teamA, teamB], next_id := 3,
          log := [BufferToString, CsvParse ''name,description'',
                  TeamSave [\<lparr>c_name = JString ''A'', c_description = JString ''d1''\<rparr>,
                            \<lparr>c_name = JString ''B'', c_description = JString ''d2''\<rparr>]]\<rparr>)"
    by (simp add: rowsAB_def getProp_def emptyWorld_def teamsFile_def teamA_def teamB_def
        createTeamDtos_def)
  from e create_all_or_nothing
         [of teamsFile "\<lambda>s. Some rowsMissing" "\<lambda>s. s" rowsMissing emptyWorld]
  have bad: "create (\<lambda>s. s) (\<lambda>s. Some rowsMissing) teamsFile emptyWorld =
       (Inl (BadRequestException MissingColumns),
        emptyWorld\<lparr>log := [BufferToString, CsvParse ''name,description'']\<rparr>)"
    by (simp add: rowsMissing_def getProp_def emptyWorld_def teamsFile_def)
  from e ok bad show ?thesis by simp
qed

text \<open>
  C10. The column check rejects only nil values. When every row carries a string in both
  columns, the empty string included, the call succeeds; a row with an empty \<^verbatim>\<open>name\<close> or
  \<^verbatim>\<open>description\<close> becomes a team with exactly that empty-string field.
\<close>

theorem create_accepts_empty_strings:
  assumes "endsWith (originalname file) ''.csv''"
    and "parse (toString (buffer file)) = Some rows"
    and "\<forall>r\<in>set rows. \<exists>n d. getProp r ''name'' = JString n
                            \<and> getProp r ''description'' = JString d"
    and "k < length rows"
    and "getProp (rows ! k) ''name'' = JString [] \<or> getProp (rows ! k) ''description'' = JString []"
  shows "\<exists>w'. create toString parse file w = (Inr (), w')
           \<and> length (teams w') = length (teams w) + length rows
           \<and> teams w' ! (length (teams w) + k) =
               \<lparr>t_id = next_id w + int k, t_name = getProp (rows ! k) ''name'',
                t_description = getProp (rows ! k) ''description''\<rparr>"
proof -
  from assms(3) have
    "\<forall>r\<in>set rows. \<not> isNil (getProp r ''name'') \<and> \<not> isNil (getProp r ''description'')"
    by fastforce
  then have "checkRows rows = Inr ()"
    by (simp add: checkRows_Inr)
  with assms(1,2) have "create toString parse file w =
           (Inr (),
            w\<lparr>teams := teams w @
                 map (\<lambda>(k, r). \<lparr>t_id = next_id w + int k, t_name = getProp r ''name'',
                                 t_description = getProp r ''description''\<rparr>)
                   (enumerate 0 rows),
              next_id := next_id w + int (length rows),
              log := log w @ [BufferToString, CsvParse (toString (buffer file)),
                              TeamSave (createTeamDtos rows)]\<rparr>)"
    by (rule create_rows_accepted)
  with assms(4) show ?thesis
    by (simp add: nth_enumerate_eq)
qed

theorem create_accepts_empty_strings_witness:
  "endsWith (originalname teamsFile) ''.csv''
   \<and> getProp (rowsEmpty ! 0) ''name'' = JString []
   \<and> (\<exists>w'. create (\<lambda>s. s) (\<lambda>s. Some rowsEmpty) teamsFile emptyWorld = (Inr (), w')
          \<and> length (teams w') = 1
          \<and> teams w' ! 0 = \<lparr>t_id = 1, t_name = JString [], t_description = JString []\<rparr>)"
proof -
  have e: "endsWith (originalname teamsFile) ''.csv''"
    by (simp add: teamsFile_def endsWith_def)
  have v: "\<forall>r\<in>set rowsEmpty. \<exists>n d. getProp r ''name'' = JString n
                            \<and> getProp r ''description'' = JString d"
    by (simp add: rowsEmpty_def getProp_def)
  have k: "0 < length rowsEmpty" by (simp add: rowsEmpty_def)
  have n: "getProp (rowsEmpty ! 0) ''name'' = JString []"
    by (simp add: rowsEmpty_def getProp_def)
  then have n': "getProp (rowsEmpty ! 0) ''name'' = JString []
                 \<or> getProp (rowsEmpty ! 0) ''description'' = JString []" ..
  from e v k n n' create_accepts_empty_strings
         [of teamsFile "\<lambda>s. Some rowsEmpty" "\<lambda>s. s" rowsEmpty 0 emptyWorld]
  show ?thesis
    by (simp add: rowsEmpty_def getProp_def emptyWorld_def)
qed

section \<open>Team lookup, update and delete\<close>

lemma find_None_iff_ids: "find (\<lambda>t. t_id t = i) ts = None \<longleftrightarrow> i \<notin> t_id ` set ts"
  by (auto simp: find_None_iff)

lemma verifyTeamById_absent:
  "i \<notin> t_id ` set (teams w) \<Longrightarrow>
     verifyTeamById i w = (Inl NotFoundException, w\<lparr>log := log w @ [TeamFindOneBy i]\<rparr>)"
proof -
  assume "i \<notin> t_id ` set (teams w)"
  then have "find (\<lambda>t. t_id t = i) (teams w) = None"
    by (simp add: find_None_iff_ids)
  then show ?thesis
    by (simp add: verifyTeamById_def teamRepository_findOneBy_def emit_def)
qed

lemma verifyTeamById_present:
  "i \<in> t_id ` set (teams w) \<Longrightarrow>
     \<exists>team. verifyTeamById i w = (Inr team, w\<lparr>log := log w @ [TeamFindOneBy i]\<rparr>)"
proof -
  assume "i \<in> t_id ` set (teams w)"
  then have "find (\<lambda>t. t_id t = i) (teams w) \<noteq> None"
    by (simp add: find_None_iff_ids)
  then obtain team where "find (\<lambda>t. t_id t = i) (teams w) = Some team" by blast
  then show ?thesis
    by (simp add: verifyTeamById_def teamRepository_findOneBy_def emit_def)
qed

text \<open>
  C7. When no team has the id, \<^verbatim>\<open>findOne\<close>, \<^verbatim>\<open>update\<close> and \<^verbatim>\<open>delete\<close> all fail with the
  not-found error of the shared existence check. The world afterwards differs from the one
  before only by the log entry of the lookup: the store is unchanged and neither the update
  nor the delete was issued.
\<close>

theorem absent_id_not_found:
  assumes "i \<notin> t_id ` set (teams w)"
  shows "findOne i w = (Inl NotFoundException, w\<lparr>log := log w @ [TeamFindOneBy i]\<rparr>)
       \<and> update i dto w = (Inl NotFoundException, w\<lparr>log := log w @ [TeamFindOneBy i]\<rparr>)
       \<and> delete i w = (Inl NotFoundException, w\<lparr>log := log w @ [TeamFindOneBy i]\<rparr>)"
  using verifyTeamById_absent [OF assms]
  by (simp add: findOne_def update_def delete_def)

theorem absent_id_not_found_witness:
  "7 \<notin> t_id ` set (teams leagueWorld)
   \<and> findOne 7 leagueWorld = (Inl NotFoundException, leagueWorld\<lparr>log := [TeamFindOneBy 7]\<rparr>)
   \<and> update 7 \<lparr>u_name = JString ''X'', u_description = JUndefined\<rparr> leagueWorld
       = (Inl NotFoundException, leagueWorld\<lparr>log := [TeamFindOneBy 7]\<rparr>)
   \<and> delete 7 leagueWorld = (Inl NotFoundException, leagueWorld\<lparr>log := [TeamFindOneBy 7]\<rparr>)"
proof -
  have h: "7 \<notin> t_id ` set (teams leagueWorld)"
    by (simp add: leagueWorld_def teamA_def teamB_def)
  have l: "log leagueWorld = []" by (simp add: leagueWorld_def)
  from h absent_id_not_found [OF h, of "\<lparr>u_name = JString ''X'', u_description = JUndefined\<rparr>"]
  show ?thesis by (simp add: l)
qed

lemma update_present:
  assumes "i \<in> t_id ` set (teams w)"
  shows "update i dto w = teamRepository_update i dto (w\<lparr>log := log w @ [TeamFindOneBy i]\<rparr>)"
proof -
  from verifyTeamById_present [OF assms] obtain team where
    "verifyTeamById i w = (Inr team, w\<lparr>log := log w @ [TeamFindOneBy i]\<rparr>)" ..
  then show ?thesis by (simp add: update_def)
qed

text \<open>
  C6. \<^verbatim>\<open>update\<close> on an existing id touches only what the patch provides. When the patch
  provides a field the call succeeds, and when it provides none the store layer refuses
  it and nothing is sent; either way every team keeps its position and id, a field the
  patch leaves undefined keeps its value in every team, a field the patch provides is set
  in the teams with that id, every team with another id is unchanged, and nothing else in
  the world changes but the log.
\<close>

theorem update_only_provided_fields:
  assumes "i \<in> t_id ` set (teams w)"
  shows "\<exists>r w'. update i dto w = (r, w')
     \<and> r = (if u_name dto = JUndefined \<and> u_description dto = JUndefined
             then Inl UpdateValuesMissingError else Inr ())
     \<and> length (teams w') = length (teams w)
     \<and> (\<forall>k < length (teams w).
          t_id (teams w' ! k) = t_id (teams w ! k)
        \<and> (u_name dto = JUndefined \<longrightarrow> t_name (teams w' ! k) = t_name (teams w ! k))
        \<and> (u_description dto = JUndefined \<longrightarrow>
              t_description (teams w' ! k) = t_description (teams w ! k))
        \<and> (t_id (teams w ! k) = i \<and> u_name dto \<noteq> JUndefined \<longrightarrow>
              t_name (teams w' ! k) = u_name dto)
        \<and> (t_id (teams w ! k) = i \<and> u_description dto \<noteq> JUndefined \<longrightarrow>
              t_description (teams w' ! k) = u_description dto)
        \<and> (t_id (teams w ! k) \<noteq> i \<longrightarrow> teams w' ! k = teams w ! k))
     \<and> players w' = players w \<and> supportMessages w' = supportMessages w
     \<and> next_id w' = next_id w \<and> cache w' = cache w
     \<and> log w' = log w @ TeamFindOneBy i #
           (if u_name dto = JUndefined \<and> u_description dto = JUndefined then []
            else [TeamUpdate i dto])"
proof (cases "u_name dto = JUndefined \<and> u_description dto = JUndefined")
  case True
  then have "update i dto w =
      (Inl UpdateValuesMissingError, w\<lparr>log := log w @ [TeamFindOneBy i]\<rparr>)"
    by (simp add: update_present [OF assms] teamRepository_update_def)
  with True show ?thesis by simp
next
  case False
  then have "update i dto w =
      (Inr (),
       w\<lparr>teams := map (\<lambda>t. if t_id t = i then applyPatch dto t else t) (teams w),
         log := log w @ [TeamFindOneBy i, TeamUpdate i dto]\<rparr>)"
    by (auto simp: update_present [OF assms] teamRepository_update_def emit_def)
  with False show ?thesis
    by (auto simp: applyPatch_def)
qed

theorem update_only_provided_fields_witness:
  "1 \<in> t_id ` set (teams leagueWorld)
   \<and> update 1 \<lparr>u_name = JString ''X'', u_description = JUndefined\<rparr> leagueWorld =
       (Inr (),
        leagueWorld\<lparr>teams := [teamA\<lparr>t_name := JString ''X''\<rparr>, teamB],
          log := [TeamFindOneBy 1,
                  TeamUpdate 1 \<lparr>u_name = JString ''X'', u_description = JUndefined\<rparr>]\<rparr>)
   \<and> t_description (teamA\<lparr>t_name := JString ''X''\<rparr>) = JString ''d1''
   \<and> update 1 \<lparr>u_name = JUndefined, u_description = JUndefined\<rparr> leagueWorld =
       (Inl UpdateValuesMissingError, leagueWorld\<lparr>log := [TeamFindOneBy 1]\<rparr>)"
proof -
  have h: "1 \<in> t_id ` set (teams leagueWorld)"
    by (simp add: leagueWorld_def teamA_def teamB_def)
  from update_only_provided_fields
         [OF h, of "\<lparr>u_name = JString ''X'', u_description = JUndefined\<rparr>"]
  have ok: "fst (update 1 \<lparr>u_name = JString ''X'', u_description = JUndefined\<rparr> leagueWorld)
               = Inr ()" by auto
  from update_only_provided_fields
         [OF h, of "\<lparr>u_name = JUndefined, u_description = JUndefined\<rparr>"]
  have refused:
    "fst (update 1 \<lparr>u_name = JUndefined, u_description = JUndefined\<rparr> leagueWorld)
       = Inl UpdateValuesMissingError" by auto
  have w1:
    "snd (update 1 \<lparr>u_name = JString ''X'', u_description = JUndefined\<rparr> leagueWorld) =
        leagueWorld\<lparr>teams := [teamA\<lparr>t_name := JString ''X''\<rparr>, teamB],
          log := [TeamFindOneBy 1,
                  TeamUpdate 1 \<lparr>u_name = JString ''X'', u_description = JUndefined\<rparr>]\<rparr>"
    by (simp add: update_def verifyTeamById_def teamRepository_findOneBy_def
        teamRepository_update_def applyPatch_def emit_def leagueWorld_def teamA_def teamB_def)
  have w2:
    "snd (update 1 \<lparr>u_name = JUndefined, u_description = JUndefined\<rparr> leagueWorld) =
        leagueWorld\<lparr>log := [TeamFindOneBy 1]\<rparr>"
    by (simp add: update_def verifyTeamById_def teamRepository_findOneBy_def
        teamRepository_update_def emit_def leagueWorld_def teamA_def teamB_def)
  from h ok refused w1 w2 show ?thesis
    by (simp add: prod_eq_iff teamA_def)
qed

section \<open>Listing all players\<close>

text \<open>
  C2. Pagination is inert on \<^verbatim>\<open>findAllPlayers\<close>: for every world and query, replacing
  \<^verbatim>\<open>page\<close> and \<^verbatim>\<open>page_size\<close> by any other values (or by none) changes neither the result
  nor the world afterwards, in the cached branch and in the direct one.
\<close>

theorem findAllPlayers_ignores_page:
  "findAllPlayers like (query\<lparr>q_page := pg, q_page_size := sz\<rparr>) w = findAllPlayers like query w"
  by (simp add: findAllPlayers_def Let_def)

theorem findAllPlayers_ignores_page_witness:
  "findAllPlayers sqlLike (searchQuery\<lparr>q_page := Some 7, q_page_size := None\<rparr>) leagueWorld
     = findAllPlayers sqlLike searchQuery leagueWorld
   \<and> findAllPlayers sqlLike (pageQuery\<lparr>q_page := None, q_page_size := Some 1\<rparr>) leagueWorld
     = findAllPlayers sqlLike pageQuery leagueWorld"
  using findAllPlayers_ignores_page [where like = sqlLike and query = searchQuery
      and pg = "Some 7" and sz = None and w = leagueWorld]
    findAllPlayers_ignores_page [where like = sqlLike and query = pageQuery
      and pg = None and sz = "Some 1" and w = leagueWorld]
  by simp




lemma sqlLike_samples:
  "sqlLike ''%k%'' ''kim''" "\<not> sqlLike ''%k%'' ''lee''" "sqlLike ''%k%'' ''park''"
  "sqlLike ''%k%'' ''kang''" "sqlLike ''%a%'' ''ace''" "sqlLike ''%a%'' ''cat''"
  "sqlLike ''%a%'' ''dart''"
  by simp_all



section \<open>Listing the players of a team\<close>











section \<open>Team statistics\<close>

lemma leftJoin_single:
  "leftJoin [r] f = (if f r = [] then [(r, None)] else map (\<lambda>x. (r, Some x)) (f r))"
  by (cases "f r") (simp_all add: leftJoin_def)

lemma leftJoin_Cons: "leftJoin (r # rows) f = leftJoin [r] f @ leftJoin rows f"
  by (simp add: leftJoin_def)

lemma leftJoin_append: "leftJoin (a @ b) f = leftJoin a f @ leftJoin b f"
  by (simp add: leftJoin_def)

lemma leftJoin_Nil: "leftJoin [] f = []"
  by (simp add: leftJoin_def)

lemma fst_set_leftJoin: "fst ` set (leftJoin rows f) = set rows"
proof (induction rows)
  case Nil
  show ?case by (simp add: leftJoin_Nil)
next
  case (Cons r rows)
  have "fst ` set (leftJoin [r] f) = {r}"
    by (cases "f r") (auto simp: leftJoin_single image_iff)
  with Cons show ?case
    by (subst leftJoin_Cons) (simp add: image_Un)
qed

lemma snd_set_leftJoin:
  "set (List.map_filter (\<lambda>x. map_option g (snd x)) (leftJoin rows f))
     = g ` (\<Union>r\<in>set rows. set (f r))"
proof (induction rows)
  case Nil
  show ?case by (simp add: leftJoin_Nil)
next
  case (Cons r rows)
  have "List.map_filter (\<lambda>x. map_option g (snd x)) (map (\<lambda>x. (r, Some x)) xs) = map g xs"
    for xs by (induction xs) simp_all
  then have "set (List.map_filter (\<lambda>x. map_option g (snd x)) (leftJoin [r] f)) = g ` set (f r)"
    by (simp add: leftJoin_single)
  with Cons show ?case
    by (subst leftJoin_Cons) (simp add: List.map_filter_def image_Un)
qed

lemma set_map_filter_fst:
  "set (List.map_filter (\<lambda>x. g (fst x)) xs) = set (List.map_filter g (map fst xs))"
  by (simp add: List.map_filter_def filter_map o_def)

lemma set_map_filter_cong:
  "set xs = set ys \<Longrightarrow> set (List.map_filter g xs) = set (List.map_filter g ys)"
  by (auto simp: List.map_filter_def)

lemma groupBy_block:
  assumes "b \<noteq> []" and "\<forall>x\<in>set b. f x = k" and "\<forall>x\<in>set rest. f x \<noteq> k"
  shows "groupBy f (b @ rest) = (hd b, tl b) # groupBy f rest"
proof (cases b)
  case Nil
  with assms(1) show ?thesis by simp
next
  case (Cons x xs)
  with assms(2) have k: "f x = k" and xs: "\<forall>y\<in>set xs. f y = k" by simp_all
  from xs have 1: "filter (\<lambda>y. f y = k) xs = xs" and 2: "filter (\<lambda>y. f y \<noteq> k) xs = []"
    by (simp_all add: filter_empty_conv)
  from assms(3) have 3: "filter (\<lambda>y. f y = k) rest = []" and 4: "filter (\<lambda>y. f y \<noteq> k) rest = rest"
    by (simp_all add: filter_empty_conv filter_id_conv)
  show ?thesis by (simp add: Cons k 1 2 3 4)
qed

text \<open>The rows the double join gives one team.\<close>

lemma block_facts:
  fixes P :: "Team \<Rightarrow> Player list" and M :: "Team \<Rightarrow> SupportMessage list" and t :: Team
  defines "b \<equiv> leftJoin (leftJoin [t] P) (\<lambda>r. M (fst r))"
  shows "b \<noteq> []"
    and "\<forall>r\<in>set b. fst (fst r) = t"
    and "countDistinct (\<lambda>r. map_option p_id (snd (fst r))) b = card (p_id ` set (P t))"
    and "countDistinct (\<lambda>r. map_option m_id (snd r)) b = card (m_id ` set (M t))"
proof -
  have inner: "fst ` set (leftJoin [t] P) = {t}"
    by (simp add: fst_set_leftJoin)
  have outer: "fst ` set b = set (leftJoin [t] P)"
    by (simp add: b_def fst_set_leftJoin)
  from inner have ne: "set (leftJoin [t] P) \<noteq> {}" by auto
  with outer show "b \<noteq> []" by auto
  show all_t: "\<forall>r\<in>set b. fst (fst r) = t"
  proof
    fix r assume "r \<in> set b"
    with outer have "fst r \<in> set (leftJoin [t] P)" by auto
    with inner have "fst (fst r) \<in> {t}" by blast
    then show "fst (fst r) = t" by simp
  qed
  have "set (List.map_filter (\<lambda>r. map_option p_id (snd (fst r))) b)
          = set (List.map_filter (\<lambda>x. map_option p_id (snd x)) (map fst b))"
    by (rule set_map_filter_fst)
  also have "\<dots> = set (List.map_filter (\<lambda>x. map_option p_id (snd x)) (leftJoin [t] P))"
    by (rule set_map_filter_cong) (simp add: outer)
  also have "\<dots> = p_id ` set (P t)"
    by (simp add: snd_set_leftJoin)
  finally show "countDistinct (\<lambda>r. map_option p_id (snd (fst r))) b = card (p_id ` set (P t))"
    by (simp add: countDistinct_def length_remdups_card_conv)
  from inner have all_inner: "\<forall>r\<in>set (leftJoin [t] P). fst r = t" by auto
  from ne obtain r0 where "r0 \<in> set (leftJoin [t] P)"
    by (cases "leftJoin [t] P") auto
  with all_inner have "(\<Union>r\<in>set (leftJoin [t] P). set (M (fst r))) = set (M t)"
    by auto
  then have "set (List.map_filter (\<lambda>r. map_option m_id (snd r)) b) = m_id ` set (M t)"
    by (simp add: b_def snd_set_leftJoin)
  then show "countDistinct (\<lambda>r. map_option m_id (snd r)) b = card (m_id ` set (M t))"
    by (simp add: countDistinct_def length_remdups_card_conv)
qed

lemma stats_of_join:
  fixes P :: "Team \<Rightarrow> Player list" and M :: "Team \<Rightarrow> SupportMessage list"
  assumes "distinct (map t_id ts)"
  shows "map teamStat (groupBy (\<lambda>r. t_id (fst (fst r)))
                         (leftJoin (leftJoin ts P) (\<lambda>r. M (fst r))))
       = map (\<lambda>t. \<lparr>s_id = t_id t, s_name = t_name t,
                    playerCount = card (p_id ` set (P t)),
                    supportMessageCount = card (m_id ` set (M t))\<rparr>) ts"
  using assms
proof (induction ts)
  case Nil
  show ?case by (simp add: leftJoin_Nil)
next
  case (Cons t ts)
  let ?b = "leftJoin (leftJoin [t] P) (\<lambda>r. M (fst r))"
  let ?rest = "leftJoin (leftJoin ts P) (\<lambda>r. M (fst r))"
  let ?key = "\<lambda>r :: joined. t_id (fst (fst r))"
  have split: "leftJoin (leftJoin (t # ts) P) (\<lambda>r. M (fst r)) = ?b @ ?rest"
    by (subst leftJoin_Cons) (simp add: leftJoin_append)
  note bf = block_facts [of t P M]
  from bf(2) have keys: "\<forall>x\<in>set ?b. ?key x = t_id t" by simp
  have "fst ` fst ` set ?rest = set ts"
    by (simp add: fst_set_leftJoin)
  then have in_ts: "\<forall>x\<in>set ?rest. fst (fst x) \<in> set ts" by blast
  from Cons.prems have fresh: "t_id t \<notin> t_id ` set ts" by simp
  have others: "\<forall>x\<in>set ?rest. ?key x \<noteq> t_id t"
  proof
    fix x assume "x \<in> set ?rest"
    with in_ts have "fst (fst x) \<in> set ts" by blast
    then have "t_id (fst (fst x)) \<in> t_id ` set ts" by (rule imageI)
    with fresh show "?key x \<noteq> t_id t" by auto
  qed
  have g: "groupBy ?key (?b @ ?rest) = (hd ?b, tl ?b) # groupBy ?key ?rest"
    using bf(1) keys others by (rule groupBy_block)
  from bf(1) have hdtl: "hd ?b # tl ?b = ?b" by simp
  from bf(1,2) have hd_t: "fst (fst (hd ?b)) = t" by simp
  have stat: "teamStat (hd ?b, tl ?b) =
      \<lparr>s_id = t_id t, s_name = t_name t,
       playerCount = card (p_id ` set (P t)),
       supportMessageCount = card (m_id ` set (M t))\<rparr>"
    by (simp add: teamStat_def hdtl hd_t bf(3,4))
  from Cons.prems have "distinct (map t_id ts)" by simp
  with Cons.IH stat show ?case
    by (simp add: split g)
qed

lemma teamStatsQuery_rows:
  assumes "distinct (map t_id (teams w))"
  shows "teamStatsQuery w =
     (map (\<lambda>t. \<lparr>s_id = t_id t, s_name = t_name t,
                 playerCount =
                   card (p_id ` set (filter (\<lambda>p. p_team_id p = t_id t) (players w))),
                 supportMessageCount =
                   card (m_id ` set (filter (\<lambda>m. m_team_id m = t_id t) (supportMessages w)))\<rparr>)
        (teams w),
      w\<lparr>log := log w @ [TeamStatsQuery]\<rparr>)"
  using stats_of_join [OF assms,
      of "\<lambda>t. filter (\<lambda>p. p_team_id p = t_id t) (players w)"
         "\<lambda>t. filter (\<lambda>m. m_team_id m = t_id t) (supportMessages w)"]
  by (simp add: teamStatsQuery_def Let_def emit_def)

text \<open>
  C5. \<^verbatim>\<open>getTeamStats\<close> is cache-aside under the one key \<^verbatim>\<open>teamStats\<close>. On a hit the
  cached value is returned and the log gains the cache read only: the store is not queried.
  On a miss, with team ids unique in the store, the grouped join is run once and gives, for
  each team in turn, its id, its name, the number of distinct ids among its players and
  the number of distinct ids among its support messages; these rows are returned and
  written under the key without a time to live, so that a read of the key at any later
  time still gives them.
\<close>

theorem getTeamStats_cache_aside:
  fixes w :: world
  defines "stats \<equiv>
     map (\<lambda>t. \<lparr>s_id = t_id t, s_name = t_name t,
                 playerCount =
                   card (p_id ` set (filter (\<lambda>p. p_team_id p = t_id t) (players w))),
                 supportMessageCount =
                   card (m_id ` set (filter (\<lambda>m. m_team_id m = t_id t) (supportMessages w)))\<rparr>)
        (teams w)"
  shows "(\<forall>v. fst (cacheManager_get ''teamStats'' w) = Some v \<longrightarrow>
            getTeamStats w = (v, w\<lparr>log := log w @ [CacheGet ''teamStats'']\<rparr>))
       \<and> (fst (cacheManager_get ''teamStats'' w) = None \<and> distinct (map t_id (teams w)) \<longrightarrow>
            getTeamStats w =
              (CStats stats,
               w\<lparr>cache := (cache w)(''teamStats'' \<mapsto>
                     \<lparr>ce_value = CStats stats, ce_expires = None\<rparr>),
                 log := log w @ [CacheGet ''teamStats'', TeamStatsQuery,
                                 CacheSet ''teamStats'' (CStats stats) None]\<rparr>)
          \<and> (\<forall>t. fst (cacheManager_get ''teamStats'' ((snd (getTeamStats w))\<lparr>now := t\<rparr>))
                  = Some (CStats stats)))"
proof -
  have hit: "getTeamStats w = (v, w\<lparr>log := log w @ [CacheGet ''teamStats'']\<rparr>)"
    if "fst (cacheManager_get ''teamStats'' w) = Some v" for v
  proof -
    from that have "cacheManager_get ''teamStats'' w =
        (Some v, w\<lparr>log := log w @ [CacheGet ''teamStats'']\<rparr>)"
      by (simp add: cacheManager_get_def emit_def)
    then show ?thesis by (simp add: getTeamStats_def)
  qed
  have miss: "getTeamStats w =
              (CStats stats,
               w\<lparr>cache := (cache w)(''teamStats'' \<mapsto>
                     \<lparr>ce_value = CStats stats, ce_expires = None\<rparr>),
                 log := log w @ [CacheGet ''teamStats'', TeamStatsQuery,
                                 CacheSet ''teamStats'' (CStats stats) None]\<rparr>)"
    if "fst (cacheManager_get ''teamStats'' w) = None" and d: "distinct (map t_id (teams w))"
  proof -
    from that(1) have "cacheManager_get ''teamStats'' w =
        (None, w\<lparr>log := log w @ [CacheGet ''teamStats'']\<rparr>)"
      by (simp add: cacheManager_get_def emit_def)
    moreover from d have "distinct (map t_id (teams (w\<lparr>log := log w @ [CacheGet ''teamStats'']\<rparr>)))"
      by simp
    note teamStatsQuery_rows [OF this]
    ultimately show ?thesis
      by (simp add: getTeamStats_def cacheManager_set_def emit_def stats_def)
  qed
  have later: "fst (cacheManager_get ''teamStats'' ((snd (getTeamStats w))\<lparr>now := t\<rparr>))
                  = Some (CStats stats)"
    if "fst (cacheManager_get ''teamStats'' w) = None" and "distinct (map t_id (teams w))" for t
    by (simp add: miss [OF that] cacheManager_get_def)
  from hit miss later show ?thesis by blast
qed

theorem getTeamStats_cache_aside_witness:
  "fst (cacheManager_get ''teamStats'' cachedWorld) = Some (CStats [])
   \<and> getTeamStats cachedWorld = (CStats [], cachedWorld\<lparr>log := [CacheGet ''teamStats'']\<rparr>)
   \<and> fst (cacheManager_get ''teamStats'' leagueWorld) = None
   \<and> distinct (map t_id (teams leagueWorld))
   \<and> fst (getTeamStats leagueWorld) =
       CStats [\<lparr>s_id = 1, s_name = JString ''A'', playerCount = 3, supportMessageCount = 2\<rparr>,
               \<lparr>s_id = 2, s_name = JString ''B'', playerCount = 1, supportMessageCount = 0\<rparr>]
   \<and> log (snd (getTeamStats leagueWorld)) =
       [CacheGet ''teamStats'', TeamStatsQuery,
        CacheSet ''teamStats''
          (CStats [\<lparr>s_id = 1, s_name = JString ''A'', playerCount = 3, supportMessageCount = 2\<rparr>,
                   \<lparr>s_id = 2, s_name = JString ''B'', playerCount = 1, supportMessageCount = 0\<rparr>])
          None]"
proof -
  have h: "fst (cacheManager_get ''teamStats'' cachedWorld) = Some (CStats [])"
    by (simp add: cacheManager_get_def cachedWorld_def leagueWorld_def)
  have m: "fst (cacheManager_get ''teamStats'' leagueWorld) = None"
    by (simp add: cacheManager_get_def leagueWorld_def)
  have d: "distinct (map t_id (teams leagueWorld))"
    by (simp add: leagueWorld_def teamA_def teamB_def)
  have l: "log cachedWorld = []" by (simp add: cachedWorld_def leagueWorld_def)
  from getTeamStats_cache_aside [of cachedWorld] h l
  have hit: "getTeamStats cachedWorld = (CStats [], cachedWorld\<lparr>log := [CacheGet ''teamStats'']\<rparr>)"
    by simp
  from getTeamStats_cache_aside [of leagueWorld] m d
  have miss: "getTeamStats leagueWorld =
     (CStats [\<lparr>s_id = 1, s_name = JString ''A'', playerCount = 3, supportMessageCount = 2\<rparr>,
              \<lparr>s_id = 2, s_name = JString ''B'', playerCount = 1, supportMessageCount = 0\<rparr>],
      leagueWorld\<lparr>cache := (cache leagueWorld)(''teamStats'' \<mapsto>
           \<lparr>ce_value =
              CStats [\<lparr>s_id = 1, s_name = JString ''A'', playerCount = 3,
                       supportMessageCount = 2\<rparr>,
                      \<lparr>s_id = 2, s_name = JString ''B'', playerCount = 1,
                       supportMessageCount = 0\<rparr>],
            ce_expires = None\<rparr>),
        log := log leagueWorld @ [CacheGet ''teamStats'', TeamStatsQuery,
           CacheSet ''teamStats''
             (CStats [\<lparr>s_id = 1, s_name = JString ''A'', playerCount = 3,
                       supportMessageCount = 2\<rparr>,
                      \<lparr>s_id = 2, s_name = JString ''B'', playerCount = 1,
                       supportMessageCount = 0\<rparr>])
             None]\<rparr>)"
    by (simp add: leagueWorld_def teamA_def teamB_def mkPlayer_def numeral_2_eq_2
        numeral_3_eq_3)
  have l2: "log leagueWorld = []" by (simp add: leagueWorld_def)
  from h hit m d show ?thesis
    by (simp add: miss l2)
qed

end
